theory Spec2Isabelle
  imports Main "HOL-Library.Multiset"
begin

section \<open>The disk cache of the Keep block store (DiskCache)\<close>

text \<open>
  A shallow embedding of \<^verbatim>\<open>DiskCache\<close>: the layer that wraps a \<^verbatim>\<open>KeepGateway\<close> and
  keeps blocks in files under a cache directory. Go strings and byte slices are
  \<open>string\<close> (lists of 8-bit characters), Go's \<^verbatim>\<open>int\<close> and \<^verbatim>\<open>int64\<close> are \<open>int\<close>
  (no computation here comes near their range), a run-time panic is the \<open>Inl\<close> of a
  sum, and a Go \<^verbatim>\<open>error\<close> is an \<open>error option\<close> with \<open>None\<close> for \<^verbatim>\<open>nil\<close>.
\<close>

subsection \<open>The Go library functions the cache calls\<close>

type_synonym bytes = string

text \<open>\<^verbatim>\<open>strings.Index(s, "+")\<close> for a one-byte separator: the index of its first
  occurrence, \<open>-1\<close> when there is none.\<close>

fun strings_Index :: "string \<Rightarrow> char \<Rightarrow> int" where
  "strings_Index [] c = - 1"
| "strings_Index (x # xs) c =
     (if x = c then 0
      else (let i = strings_Index xs c in if i < 0 then - 1 else i + 1))"

text \<open>\<^verbatim>\<open>strings.HasSuffix\<close>.\<close>

definition strings_HasSuffix :: "string \<Rightarrow> string \<Rightarrow> bool" where
  "strings_HasSuffix s suf =
     (length suf \<le> length s \<and> drop (length s - length suf) s = suf)"

text \<open>\<^verbatim>\<open>strings.Split(s, "/")\<close> and \<^verbatim>\<open>strings.Join(elems, "/")\<close>.\<close>

fun split_sep :: "string \<Rightarrow> string list" where
  "split_sep [] = [[]]"
| "split_sep (c # cs) =
     (if c = CHR ''/'' then [] # split_sep cs
      else (case split_sep cs of [] \<Rightarrow> [[c]] | w # ws \<Rightarrow> (c # w) # ws))"

fun join_sep :: "string list \<Rightarrow> string" where
  "join_sep [] = []"
| "join_sep [e] = e"
| "join_sep (e # es) = e @ CHR ''/'' # join_sep es"

text \<open>
  \<^verbatim>\<open>filepath.Clean\<close> on Unix, element by element: an empty element and \<^verbatim>\<open>.\<close> are
  dropped, \<^verbatim>\<open>..\<close> removes the element before it (at the root it is dropped, at the
  start of a relative path it is kept). The stack holds the elements kept so far,
  the last one first.
\<close>

fun clean_step :: "bool \<Rightarrow> string list \<Rightarrow> string \<Rightarrow> string list" where
  "clean_step rooted st c =
     (if c = [] \<or> c = ''.'' then st
      else if c = ''..'' then
        (case st of
           [] \<Rightarrow> (if rooted then [] else [''..''])
         | t # ts \<Rightarrow> (if t = ''..'' then ''..'' # st else ts))
      else c # st)"

definition filepath_Clean :: "string \<Rightarrow> string" where
  "filepath_Clean p =
     (if p = [] then ''.''
      else
        (let rooted = (hd p = CHR ''/'');
             body = join_sep (rev (foldl (clean_step rooted) [] (split_sep p)))
         in if rooted then CHR ''/'' # body
            else if body = [] then ''.'' else body))"

text \<open>\<^verbatim>\<open>filepath.Join\<close>: the elements from the first non-empty one on, joined by
  slashes and cleaned; the empty string when every element is empty.\<close>

fun filepath_Join :: "string list \<Rightarrow> string" where
  "filepath_Join [] = []"
| "filepath_Join (e # es) =
     (if e = [] then filepath_Join es else filepath_Clean (join_sep (e # es)))"

text \<open>
  \<^verbatim>\<open>strconv.ParseInt(s, 10, 32)\<close>: an optional sign, then one or more decimal
  digits, and a value that fits a signed 32-bit integer; \<open>None\<close> stands for the
  syntax and range errors.
\<close>

definition is_digit :: "char \<Rightarrow> bool" where
  "is_digit c = (48 \<le> (of_char c :: nat) \<and> (of_char c :: nat) \<le> 57)"

definition digit_val :: "char \<Rightarrow> int" where
  "digit_val c = int (of_char c) - 48"

definition decimal :: "string \<Rightarrow> int" where
  "decimal ds = foldl (\<lambda>acc c. 10 * acc + digit_val c) 0 ds"

definition ParseInt :: "string \<Rightarrow> int option" where
  "ParseInt s =
     (let neg = (s \<noteq> [] \<and> hd s = CHR ''-'');
          ds = (if s \<noteq> [] \<and> (hd s = CHR ''+'' \<or> hd s = CHR ''-'') then tl s else s)
      in if ds = [] \<or> \<not> list_all is_digit ds then None
         else
           (let v = (if neg then - decimal ds else decimal ds)
            in if v < - (2 ^ 31) \<or> 2 ^ 31 \<le> v then None else Some v))"

subsection \<open>Errors and panics\<close>

datatype error =
    EOF
  | ENOENT
  | EEXIST
  | OSError string
  | NegativeOffset
  | QuickReadAtLostRace
  | SizeMismatch int int
  | HashMismatch string string
  | NoSizeHint
  | InvalidSizeHint
  | Diagnostic string string error
  | GatewayError string

datatype panic =
    SliceOutOfRange nat nat
  | NilMapAssignment

subsection \<open>The cache, its held-open files and the gateway behind it\<close>

text \<open>
  \<^verbatim>\<open>openFileEnt\<close>: the open file (here the inode it was opened on; \<open>None\<close> is
  \<^verbatim>\<open>nil\<close>) and the error of opening it. Its read-write mutex orders concurrent
  goroutines and has no part in a sequential run.
\<close>

record openFileEnt =
  ent_f :: "nat option"
  ent_err :: "error option"

text \<open>
  \<^verbatim>\<open>DiskCache\<close>. The map \<^verbatim>\<open>heldopen\<close> is an association list with one pair per key,
  so that its length is \<^verbatim>\<open>len(cache.heldopen)\<close>; \<open>None\<close> is the \<^verbatim>\<open>nil\<close> map.
\<close>

record DiskCache =
  Dir :: string
  MaxSize :: int
  tidying :: int
  tidyHoldUntil :: int
  defaultMaxSize :: int
  heldopen :: "(string \<times> openFileEnt) list option"
  heldopenMax :: int

definition newDiskCache :: "string \<Rightarrow> int \<Rightarrow> DiskCache" where
  "newDiskCache dir maxsize =
     \<lparr>Dir = dir, MaxSize = maxsize, tidying = 0, tidyHoldUntil = 0, defaultMaxSize = 0,
      heldopen = None, heldopenMax = 0\<rparr>"

definition cacheFileSuffix :: string where
  "cacheFileSuffix = ''.keepcacheblock''"

definition tmpFileSuffix :: string where
  "tmpFileSuffix = ''.tmp''"

definition tidyHoldDuration :: int where
  "tidyHoldDuration = 10 * 1000000000"

subsection \<open>Path layout\<close>

text \<open>
  \<^verbatim>\<open>cacheFile\<close>. The slice \<^verbatim>\<open>hash[:3]\<close> panics when the hash has fewer than three
  bytes.
\<close>

definition cacheFile :: "DiskCache \<Rightarrow> string \<Rightarrow> panic + string" where
  "cacheFile cache locator =
     (let i = strings_Index locator CHR ''+'';
          hash = (if i > 0 then take (nat i) locator else locator)
      in if length hash < 3 then Inl (SliceOutOfRange 3 (length hash))
         else Inr (filepath_Join [Dir cache, take 3 hash, hash @ cacheFileSuffix]))"

subsection \<open>The operating system and the rest of the environment\<close>

text \<open>
  A file system of names and inodes: a name maps to an inode, an inode to its
  contents. An open file is the inode it was opened on, so a descriptor held open
  keeps reading the old contents after its name was renamed over or removed.
  Directories are not tracked: that the parent directory of a name is missing shows
  as a failing call (see \<open>fault\<close> below).
\<close>

record filesys =
  names :: "string \<rightharpoonup> nat"
  inodes :: "nat \<Rightarrow> bytes"
  next_ino :: nat

datatype flag = O_RDONLY | O_WRONLY | O_RDWR | O_CREATE | O_EXCL

text \<open>The places where a system call is made, one per call in the source.\<close>

datatype site =
    TmpOpen | TmpOpenRetry | Copy | TmpClose | Rename | RenameRetry
  | QuickOpen | QuickFlock | QuickPread
  | CacheOpen | CacheOpenRetry | FlockSh | SeekEnd | FlockEx | SeekEnd2 | SeekStart | Pread
  | CopyOut | TidyLockOpen | TidyLockOpenRetry | TidyFlock

text \<open>\<^verbatim>\<open>entT\<close> of \<^verbatim>\<open>tidy\<close>; times are nanoseconds.\<close>

record entT =
  ent_path :: string
  ent_atime :: int
  ent_size :: int

text \<open>
  Everything a call takes from outside the cache:
  \<^item> \<open>fault s\<close>: the error of the system call made at \<open>s\<close>, when the operating system
    fails it for a reason the file system above does not show (a missing parent
    directory, a read-only or full disk, no descriptor left);
  \<^item> \<open>rlimit\<close>: \<^verbatim>\<open>syscall.Getrlimit(RLIMIT_NOFILE)\<close>, the soft limit or \<open>None\<close> on error;
  \<^item> \<open>statfs\<close>: \<^verbatim>\<open>unix.Statfs\<close>, the pair (\<^verbatim>\<open>Bavail\<close>, \<^verbatim>\<open>Bsize\<close>) or \<open>None\<close> on error;
  \<^item> \<open>md5sum\<close>: the MD5 digest of a byte string, read as a number;
  \<^item> \<open>unique_token\<close>: the text \<^verbatim>\<open>fmt.Sprintf("%x.%p", os.Getpid(), &opts)\<close>;
  \<^item> \<open>sort_Slice less\<close>: \<^verbatim>\<open>sort.Slice\<close> with the comparison \<open>less\<close> (not stable: the
    order of entries that compare equal is the library's choice);
  \<^item> \<open>copyerr_first\<close>: whether an error the copying goroutine of \<^verbatim>\<open>BlockWrite\<close> sends
    is in the channel by the time the wrapped gateway has returned and
    \<^verbatim>\<open>len(copyerr)\<close> is read;
  \<^item> \<open>piped\<close>: how many bytes went through the pipe before a copy failed.
\<close>

record env =
  fault :: "site \<Rightarrow> error option"
  rlimit :: "nat option"
  statfs :: "(int \<times> int) option"
  md5sum :: "bytes \<Rightarrow> nat"
  unique_token :: string
  sort_Slice :: "(entT \<Rightarrow> entT \<Rightarrow> bool) \<Rightarrow> entT list \<Rightarrow> entT list"
  copyerr_first :: bool
  piped :: nat

text \<open>\<^verbatim>\<open>os.OpenFile(name, flags, 0600)\<close>.\<close>

definition os_OpenFile ::
  "error option \<Rightarrow> filesys \<Rightarrow> string \<Rightarrow> flag set \<Rightarrow> filesys \<times> (error + nat)" where
  "os_OpenFile flt fs name flags =
     (case flt of
        Some e \<Rightarrow> (fs, Inl e)
      | None \<Rightarrow>
          (case names fs name of
             Some ino \<Rightarrow>
               (if O_CREATE \<in> flags \<and> O_EXCL \<in> flags then (fs, Inl EEXIST)
                else (fs, Inr ino))
           | None \<Rightarrow>
               (if O_CREATE \<in> flags then
                  (let ino = next_ino fs
                   in (fs\<lparr>names := (names fs)(name \<mapsto> ino),
                           inodes := (inodes fs)(ino := []),
                           next_ino := Suc ino\<rparr>, Inr ino))
                else (fs, Inl ENOENT))))"

text \<open>\<^verbatim>\<open>os.Rename\<close> and \<^verbatim>\<open>os.Remove\<close> (whose error every caller drops).\<close>

definition os_Rename ::
  "error option \<Rightarrow> filesys \<Rightarrow> string \<Rightarrow> string \<Rightarrow> filesys \<times> error option" where
  "os_Rename flt fs old new =
     (case flt of
        Some e \<Rightarrow> (fs, Some e)
      | None \<Rightarrow>
          (case names fs old of
             None \<Rightarrow> (fs, Some ENOENT)
           | Some ino \<Rightarrow> (fs\<lparr>names := ((names fs)(old := None))(new \<mapsto> ino)\<rparr>, None)))"

definition os_Remove :: "filesys \<Rightarrow> string \<Rightarrow> filesys" where
  "os_Remove fs name = fs\<lparr>names := (names fs)(name := None)\<rparr>"

text \<open>
  \<^verbatim>\<open>(*os.File).ReadAt(dst, off)\<close> on a file with the given contents: the bytes put
  into \<open>dst\<close> and the error, \<^verbatim>\<open>io.EOF\<close> when fewer than \<^verbatim>\<open>len(dst)\<close> bytes were there.
\<close>

definition file_ReadAt ::
  "error option \<Rightarrow> bytes \<Rightarrow> nat \<Rightarrow> int \<Rightarrow> bytes \<times> error option" where
  "file_ReadAt flt content n off =
     (if off < 0 then ([], Some NegativeOffset)
      else
        (case flt of
           Some e \<Rightarrow> ([], Some e)
         | None \<Rightarrow>
             (let got = take n (drop (nat off) content)
              in (got, if length got < n then Some EOF else None))))"

text \<open>\<^verbatim>\<open>(*os.File).Truncate(n)\<close>: a longer size pads with zero bytes, a negative one
  is an error and leaves the file as it is.\<close>

definition file_Truncate :: "bytes \<Rightarrow> int \<Rightarrow> bytes" where
  "file_Truncate content n =
     (if n < 0 then content
      else take (nat n) content @ replicate (nat n - length content) (CHR 0x00))"

text \<open>Writing \<open>w\<close> at the start of a file.\<close>

definition file_WriteAt0 :: "bytes \<Rightarrow> bytes \<Rightarrow> bytes" where
  "file_WriteAt0 content w = w @ drop (length w) content"

text \<open>
  \<^verbatim>\<open>openFile\<close>: when the first \<^verbatim>\<open>os.OpenFile\<close> fails with an error for which
  \<^verbatim>\<open>os.IsNotExist\<close> holds (\<open>ENOENT\<close>), the parent directory is made and the call
  repeated once. \<open>s1\<close> and \<open>s2\<close> are the places of the two calls.
\<close>

definition openFile ::
  "env \<Rightarrow> site \<Rightarrow> site \<Rightarrow> filesys \<Rightarrow> string \<Rightarrow> flag set \<Rightarrow> filesys \<times> (error + nat)" where
  "openFile e s1 s2 fs name flags =
     (let r = os_OpenFile (fault e s1) fs name flags
      in if snd r = Inl ENOENT then os_OpenFile (fault e s2) (fst r) name flags else r)"

text \<open>\<^verbatim>\<open>rename\<close>: the same for \<^verbatim>\<open>os.Rename\<close>, on any error.\<close>

definition rename ::
  "env \<Rightarrow> filesys \<Rightarrow> string \<Rightarrow> string \<Rightarrow> filesys \<times> error option" where
  "rename e fs old new =
     (let r = os_Rename (fault e Rename) fs old new
      in if snd r = None then r else os_Rename (fault e RenameRetry) (fst r) old new)"

text \<open>\<^verbatim>\<open>fmt.Sprintf("%x", hashcheck.Sum(nil))\<close>: the sixteen bytes of the digest as
  thirty-two lower-case hexadecimal digits.\<close>

definition hex_digit :: "nat \<Rightarrow> char" where
  "hex_digit d = ''0123456789abcdef'' ! (d mod 16)"

fun hex_fixed :: "nat \<Rightarrow> nat \<Rightarrow> string" where
  "hex_fixed 0 v = []"
| "hex_fixed (Suc k) v = hex_fixed k (v div 16) @ [hex_digit (v mod 16)]"

definition md5_hex :: "env \<Rightarrow> bytes \<Rightarrow> string" where
  "md5_hex e b = hex_fixed 32 (md5sum e b)"

subsection \<open>The wrapped gateway\<close>

text \<open>
  Modelled from the spec: the declarations of \<^verbatim>\<open>BlockWriteOptions\<close>,
  \<^verbatim>\<open>BlockReadOptions\<close> and \<^verbatim>\<open>BlockWriteResponse\<close> are not among the sources. The
  options carry "either a byte buffer or a reader, an optional expected length, an
  optional expected hash"; the fields below are the ones \<^verbatim>\<open>DiskCache\<close> reads. A reader
  is the bytes it yields before it ends, with \<^verbatim>\<open>io.EOF\<close> (\<open>None\<close>) or with an error. The
  response is any type \<open>'r\<close>; \<^verbatim>\<open>BlockReadOptions\<close> is its \<^verbatim>\<open>Locator\<close>, and what is written
  to its \<^verbatim>\<open>WriteTo\<close> is returned with the result.
\<close>

record reader =
  rd_bytes :: bytes
  rd_err :: "error option"

record BlockWriteOptions =
  Data :: "bytes option"
  Reader :: reader
  DataSize :: int
  Hash :: string

text \<open>
  \<^verbatim>\<open>KeepGateway\<close>, a black box: \<open>gw_ReadAt locator (len dst) offset\<close> gives the bytes
  put into \<open>dst\<close> and the error; \<open>gw_BlockRead locator\<close> gives the bytes written to
  the sink, the count returned and the error; \<open>gw_BlockWrite opts\<close> gives the response
  and the error.
\<close>

record 'r KeepGateway =
  gw_ReadAt :: "string \<Rightarrow> nat \<Rightarrow> int \<Rightarrow> bytes \<times> error option"
  gw_BlockRead :: "string \<Rightarrow> bytes \<times> int \<times> error option"
  gw_BlockWrite :: "BlockWriteOptions \<Rightarrow> 'r \<times> error option"
  gw_LocalLocator :: "string \<Rightarrow> string \<times> error option"

text \<open>The calls a cache operation made to the wrapped gateway, in order.\<close>

datatype gwcall =
    CallReadAt string nat int
  | CallBlockRead string
  | CallBlockWrite BlockWriteOptions

subsection \<open>The pool of files held open\<close>

definition heldopen_lookup :: "DiskCache \<Rightarrow> string \<Rightarrow> openFileEnt option" where
  "heldopen_lookup cache name =
     (case heldopen cache of None \<Rightarrow> None | Some m \<Rightarrow> map_of m name)"

text \<open>An entry is a pointer in the source: a write to it shows in the map.\<close>

definition heldopen_store :: "DiskCache \<Rightarrow> string \<Rightarrow> openFileEnt \<Rightarrow> DiskCache" where
  "heldopen_store cache name ent =
     cache\<lparr>heldopen :=
       map_option (map (\<lambda>kv. if fst kv = name then (name, ent) else kv)) (heldopen cache)\<rparr>"

text \<open>
  \<^verbatim>\<open>deleteHeldopen\<close>, run to its end (the source starts it as a goroutine). The
  source compares pointers; in a sequential run the entry passed is the one the map
  holds under the name, or the map holds none.
\<close>

definition deleteHeldopen :: "DiskCache \<Rightarrow> string \<Rightarrow> openFileEnt \<Rightarrow> DiskCache" where
  "deleteHeldopen cache name ent =
     (if heldopen_lookup cache name = Some ent
      then cache\<lparr>heldopen := map_option (filter (\<lambda>kv. fst kv \<noteq> name)) (heldopen cache)\<rparr>
      else cache)"

text \<open>The limit chosen on first use (while \<^verbatim>\<open>heldopenMax\<close> is zero).\<close>

definition chooseHeldopenMax :: "env \<Rightarrow> DiskCache \<Rightarrow> DiskCache" where
  "chooseHeldopenMax e cache =
     (if heldopenMax cache = 0 then
        cache\<lparr>heldopenMax :=
          (case rlimit e of
             None \<Rightarrow> 256
           | Some cur \<Rightarrow> (if cur > 40000 then 10000 else int (cur div 4)))\<rparr>
      else cache)"

text \<open>
  The part of \<^verbatim>\<open>quickReadAt\<close> under \<^verbatim>\<open>heldopenLock\<close>: the entry of the name, whether
  it is new, and the cache with the new entry in its map. When the map is over the
  limit it is handed to a goroutine that closes its files, \<^verbatim>\<open>cache.heldopen\<close> is set
  to \<^verbatim>\<open>nil\<close>, and the assignment that follows is to a \<^verbatim>\<open>nil\<close> map.
\<close>

definition heldopen_acquire ::
  "env \<Rightarrow> DiskCache \<Rightarrow> string \<Rightarrow> panic + (DiskCache \<times> bool \<times> openFileEnt)" where
  "heldopen_acquire e cache0 name =
     (let cache = chooseHeldopenMax e cache0
      in case heldopen_lookup cache name of
           Some ent \<Rightarrow> Inr (cache, False, ent)
         | None \<Rightarrow>
             (let new = \<lparr>ent_f = None, ent_err = None\<rparr>
              in case heldopen cache of
                   None \<Rightarrow> Inr (cache\<lparr>heldopen := Some [(name, new)]\<rparr>, True, new)
                 | Some m \<Rightarrow>
                     (if int (length m) > heldopenMax cache then Inl NilMapAssignment
                      else Inr (cache\<lparr>heldopen := Some ((name, new) # m)\<rparr>, True, new))))"

text \<open>The new entry's owner opens the file and takes a shared lock on it.\<close>

definition heldopen_init ::
  "env \<Rightarrow> DiskCache \<Rightarrow> filesys \<Rightarrow> string \<Rightarrow> openFileEnt \<Rightarrow> DiskCache \<times> openFileEnt" where
  "heldopen_init e cache fs name ent0 =
     (case snd (os_OpenFile (fault e QuickOpen) fs name {O_RDONLY}) of
        Inl er \<Rightarrow>
          (let ent = ent0\<lparr>ent_err := Some er\<rparr>
           in (deleteHeldopen (heldopen_store cache name ent) name ent, ent))
      | Inr ino \<Rightarrow>
          (case fault e QuickFlock of
             Some er \<Rightarrow>
               (let ent = ent0\<lparr>ent_err := Some er\<rparr>
                in (deleteHeldopen (heldopen_store cache name ent) name ent, ent))
           | None \<Rightarrow>
               (let ent = ent0\<lparr>ent_f := Some ino\<rparr>
                in (heldopen_store cache name ent, ent))))"

text \<open>\<^verbatim>\<open>quickReadAt\<close>: the cache after the call, the bytes read and the error.\<close>

definition quickReadAt ::
  "env \<Rightarrow> DiskCache \<Rightarrow> filesys \<Rightarrow> string \<Rightarrow> nat \<Rightarrow> int
     \<Rightarrow> panic + (DiskCache \<times> bytes \<times> error option)" where
  "quickReadAt e cache0 fs name dstlen offset =
     (case heldopen_acquire e cache0 name of
        Inl p \<Rightarrow> Inl p
      | Inr (cache1, isnew, ent0) \<Rightarrow>
          (let (cache2, ent) =
                 (if isnew then heldopen_init e cache1 fs name ent0 else (cache1, ent0))
           in if ent_err ent \<noteq> None then Inr (cache2, [], ent_err ent)
              else
                (case ent_f ent of
                   None \<Rightarrow> Inr (cache2, [], Some QuickReadAtLostRace)
                 | Some ino \<Rightarrow>
                     (let (got, err) =
                            file_ReadAt (fault e QuickPread) (inodes fs ino) dstlen offset
                      in Inr (if err \<noteq> None then deleteHeldopen cache2 name ent else cache2,
                              got, err)))))"

subsection \<open>Reading\<close>

definition diag :: "string \<Rightarrow> string \<Rightarrow> error \<Rightarrow> bytes \<times> error option" where
  "diag call name er = ([], Some (Diagnostic call name er))"

text \<open>
  \<^verbatim>\<open>ReadAt\<close> after \<^verbatim>\<open>quickReadAt\<close> has failed: the result, the file system after the
  call and the calls made to the wrapped gateway. No other process writes the file
  between the two \<^verbatim>\<open>Seek\<close> calls of a sequential run, so both find the same size.
\<close>

definition ReadAt_slow ::
  "env \<Rightarrow> 'r KeepGateway \<Rightarrow> filesys \<Rightarrow> string \<Rightarrow> string \<Rightarrow> nat \<Rightarrow> int
     \<Rightarrow> (bytes \<times> error option) \<times> filesys \<times> gwcall list" where
  "ReadAt_slow e gw fs locator name dstlen offset =
     (let (fs1, opened) = openFile e CacheOpen CacheOpenRetry fs name {O_CREATE, O_RDWR}
      in case opened of
           Inl er \<Rightarrow> (gw_ReadAt gw locator dstlen offset, fs1, [CallReadAt locator dstlen offset])
         | Inr ino \<Rightarrow>
             (case fault e FlockSh of
                Some er \<Rightarrow> (diag ''flock lock_sh'' name er, fs1, [])
              | None \<Rightarrow>
             (case fault e SeekEnd of
                Some er \<Rightarrow> (diag ''seek seek_end'' name er, fs1, [])
              | None \<Rightarrow>
             (let short = (int (length (inodes fs1 ino)) < int dstlen + offset)
              in case (if short then fault e FlockEx else None) of
                   Some er \<Rightarrow> (diag ''flock lock_ex'' name er, fs1, [])
                 | None \<Rightarrow>
             (case fault e SeekEnd2 of
                Some er \<Rightarrow> (diag ''seek seek_end'' name er, fs1, [])
              | None \<Rightarrow>
             (if short then
                (case fault e SeekStart of
                   Some er \<Rightarrow> (diag ''seek seek_start'' name er, fs1, [])
                 | None \<Rightarrow>
                     (let (w, n, err) = gw_BlockRead gw locator;
                          fs2 = fs1\<lparr>inodes := (inodes fs1)
                                  (ino := file_WriteAt0 (inodes fs1 ino) w)\<rparr>
                      in case err of
                           Some er \<Rightarrow> (([], Some er), fs2, [CallBlockRead locator])
                         | None \<Rightarrow>
                             (let fs3 = fs2\<lparr>inodes := (inodes fs2)
                                          (ino := file_Truncate (inodes fs2 ino) n)\<rparr>
                              in (file_ReadAt (fault e Pread) (inodes fs3 ino) dstlen offset,
                                  fs3, [CallBlockRead locator]))))
              else (file_ReadAt (fault e Pread) (inodes fs1 ino) dstlen offset, fs1, [])))))))"

text \<open>
  \<^verbatim>\<open>ReadAt\<close>. The call of \<^verbatim>\<open>gotidy\<close> that opens it starts \<^verbatim>\<open>tidy\<close> in the background;
  \<^verbatim>\<open>tidy\<close> is modelled below, on its own. A panic ends the call: the cache and the
  file system given with it are those from before the call.
\<close>

definition ReadAt ::
  "env \<Rightarrow> 'r KeepGateway \<Rightarrow> DiskCache \<Rightarrow> filesys \<Rightarrow> string \<Rightarrow> nat \<Rightarrow> int
     \<Rightarrow> (panic + bytes \<times> error option) \<times> DiskCache \<times> filesys \<times> gwcall list" where
  "ReadAt e gw cache fs locator dstlen offset =
     (case cacheFile cache locator of
        Inl p \<Rightarrow> (Inl p, cache, fs, [])
      | Inr cachefilename \<Rightarrow>
          (case quickReadAt e cache fs cachefilename dstlen offset of
             Inl p \<Rightarrow> (Inl p, cache, fs, [])
           | Inr (cache1, got, err) \<Rightarrow>
               (if err = None then (Inr (got, None), cache1, fs, [])
                else
                  (let (r, fs1, calls) =
                         ReadAt_slow e gw fs locator cachefilename dstlen offset
                   in (Inr r, cache1, fs1, calls)))))"

text \<open>
  \<^verbatim>\<open>BlockRead\<close>: the bytes written to \<^verbatim>\<open>opts.WriteTo\<close>, the count and the error; the
  file system after the call; the calls made to the wrapped gateway. The wrapped
  gateway writes through \<^verbatim>\<open>io.MultiWriter(f, opts.WriteTo)\<close>, so the file and the
  caller's writer get the same bytes. As in \<^verbatim>\<open>ReadAt\<close>, the \<^verbatim>\<open>gotidy\<close> call that
  opens it is left to the model of \<^verbatim>\<open>tidy\<close>.
\<close>

definition BlockRead ::
  "env \<Rightarrow> 'r KeepGateway \<Rightarrow> DiskCache \<Rightarrow> filesys \<Rightarrow> string
     \<Rightarrow> (panic + bytes \<times> int \<times> error option) \<times> filesys \<times> gwcall list" where
  "BlockRead e gw cache fs locator =
     (case cacheFile cache locator of
        Inl p \<Rightarrow> (Inl p, fs, [])
      | Inr cachefilename \<Rightarrow>
     (let (fs1, opened) =
            openFile e CacheOpen CacheOpenRetry fs cachefilename {O_CREATE, O_RDWR}
      in case opened of
           Inl er \<Rightarrow> (Inr (gw_BlockRead gw locator), fs1, [CallBlockRead locator])
         | Inr ino \<Rightarrow>
     (let i = strings_Index locator CHR ''+''
      in if i < 0 \<or> i \<ge> int (length locator) then (Inr ([], 0, Some NoSizeHint), fs1, [])
         else
     (let rest = drop (nat (i + 1)) locator;
          j = strings_Index rest CHR ''+'';
          sizestr = (if j > 0 then take (nat j) rest else rest)
      in case ParseInt sizestr of
           None \<Rightarrow> (Inr ([], 0, Some InvalidSizeHint), fs1, [])
         | Some blocksize \<Rightarrow>
     (if blocksize < 0 then (Inr ([], 0, Some InvalidSizeHint), fs1, [])
      else
     (case fault e FlockSh of
        Some er \<Rightarrow> (Inr ([], 0, Some er), fs1, [])
      | None \<Rightarrow>
     (case fault e SeekEnd of
        Some er \<Rightarrow> (Inr ([], 0, Some er), fs1, [])
      | None \<Rightarrow>
     (case fault e SeekStart of
        Some er \<Rightarrow> (Inr ([], 0, Some er), fs1, [])
      | None \<Rightarrow>
     (if int (length (inodes fs1 ino)) = blocksize then
        (case fault e CopyOut of
           Some er \<Rightarrow>
             (let out = take (piped e) (inodes fs1 ino)
              in (Inr (out, int (length out), Some er), fs1, []))
         | None \<Rightarrow> (Inr (inodes fs1 ino, int (length (inodes fs1 ino)), None), fs1, []))
      else
     (case fault e FlockEx of
        Some er \<Rightarrow> (Inr ([], 0, Some er), fs1, [])
      | None \<Rightarrow>
     (let (w, n, err) = gw_BlockRead gw locator;
          fs2 = fs1\<lparr>inodes := (inodes fs1)(ino := file_WriteAt0 (inodes fs1 ino) w)\<rparr>
      in case err of
           Some er \<Rightarrow> (Inr (w, n, Some er), fs2, [CallBlockRead locator])
         | None \<Rightarrow>
             (Inr (w, n, None),
              fs2\<lparr>inodes := (inodes fs2)(ino := file_Truncate (inodes fs2 ino) n)\<rparr>,
              [CallBlockRead locator]))))))))))))"

subsection \<open>Writing\<close>

text \<open>The source the goroutine copies from: \<^verbatim>\<open>opts.Data\<close> when it is not \<^verbatim>\<open>nil\<close>,
  \<^verbatim>\<open>opts.Reader\<close> otherwise.\<close>

definition copy_source :: "BlockWriteOptions \<Rightarrow> reader" where
  "copy_source opts =
     (case Data opts of Some d \<Rightarrow> \<lparr>rd_bytes = d, rd_err = None\<rparr> | None \<Rightarrow> Reader opts)"

text \<open>
  \<^verbatim>\<open>io.Copy(io.MultiWriter(tmpfile, pipewriter, hashcheck), src)\<close>: the bytes that
  reached the three writers and the error. The copy fails when the source does, and
  when a write does (the disk is full, the wrapped gateway has stopped reading the
  pipe): the latter is \<open>fault e Copy\<close>.
\<close>

definition copied :: "env \<Rightarrow> BlockWriteOptions \<Rightarrow> bytes \<times> error option" where
  "copied e opts =
     (let src = copy_source opts;
          err = (case rd_err src of Some er \<Rightarrow> Some er | None \<Rightarrow> fault e Copy)
      in (if err = None then rd_bytes src else take (piped e) (rd_bytes src), err))"

text \<open>
  The goroutine of \<^verbatim>\<open>BlockWrite\<close>, run to its end: the error it sends on \<^verbatim>\<open>copyerr\<close>
  (\<open>None\<close> when it sends nothing), the file system it leaves, and whether it renamed
  the temporary file into place. Its deferred \<^verbatim>\<open>os.Remove(tmpfilename)\<close> runs on
  every way out.
\<close>

definition feeder ::
  "env \<Rightarrow> DiskCache \<Rightarrow> filesys \<Rightarrow> BlockWriteOptions \<Rightarrow> string \<Rightarrow> nat
     \<Rightarrow> (panic + error option) \<times> filesys \<times> bool" where
  "feeder e cache fs opts tmpfilename tmpfile =
     (let (written, err) = copied e opts;
          n = int (length written);
          fs1 = fs\<lparr>inodes := (inodes fs)(tmpfile := written)\<rparr>
      in if err \<noteq> None then (Inr err, os_Remove fs1 tmpfilename, False)
         else if DataSize opts > 0 \<and> DataSize opts \<noteq> n
         then (Inr (Some (SizeMismatch n (DataSize opts))), os_Remove fs1 tmpfilename, False)
         else if fault e TmpClose \<noteq> None then (Inr None, os_Remove fs1 tmpfilename, False)
         else
           (let hash = md5_hex e written
            in if Hash opts \<noteq> [] \<and> Hash opts \<noteq> hash
               then (Inr (Some (HashMismatch hash (Hash opts))),
                     os_Remove fs1 tmpfilename, False)
               else
                 (case cacheFile cache hash of
                    Inl p \<Rightarrow> (Inl p, os_Remove fs1 tmpfilename, False)
                  | Inr cachefilename \<Rightarrow>
                      (let (fs2, rerr) = rename e fs1 tmpfilename cachefilename
                       in (Inr None, os_Remove fs2 tmpfilename, rerr = None)))))"

text \<open>
  \<^verbatim>\<open>BlockWrite\<close>: the response and error returned, the file system once the
  goroutine has ended, the calls made to the wrapped gateway, and whether the block
  was renamed into the cache. The wrapped gateway reads the pipe, which carries the
  bytes copied. The error of the goroutine replaces the gateway's when
  \<^verbatim>\<open>len(copyerr) > 0\<close> at the time the gateway has returned. The \<^verbatim>\<open>gotidy\<close> call
  that opens it is left to the model of \<^verbatim>\<open>tidy\<close>.
\<close>

definition BlockWrite ::
  "env \<Rightarrow> 'r KeepGateway \<Rightarrow> DiskCache \<Rightarrow> filesys \<Rightarrow> BlockWriteOptions
     \<Rightarrow> (panic + 'r \<times> error option) \<times> filesys \<times> gwcall list \<times> bool" where
  "BlockWrite e gw cache fs opts =
     (let unique = unique_token e @ tmpFileSuffix;
          tmpfilename = filepath_Join [Dir cache, ''tmp'', unique];
          (fs1, opened) =
            openFile e TmpOpen TmpOpenRetry fs tmpfilename {O_CREATE, O_EXCL, O_RDWR}
      in case opened of
           Inl er \<Rightarrow> (Inr (gw_BlockWrite gw opts), fs1, [CallBlockWrite opts], False)
         | Inr tmpfile \<Rightarrow>
             (let (sent, fs2, committed) = feeder e cache fs1 opts tmpfilename tmpfile;
                  newopts = opts
                    \<lparr>Data := None,
                     Reader := \<lparr>rd_bytes = fst (copied e opts), rd_err = None\<rparr>,
                     DataSize :=
                       (if DataSize opts = 0
                        then (case Data opts of None \<Rightarrow> 0 | Some d \<Rightarrow> int (length d))
                        else DataSize opts)\<rparr>;
                  (resp, err) = gw_BlockWrite gw newopts
              in case sent of
                   Inl p \<Rightarrow> (Inl p, fs2, [CallBlockWrite newopts], False)
                 | Inr copyerr \<Rightarrow>
                     (Inr (resp, if copyerr \<noteq> None \<and> copyerr_first e then copyerr else err),
                      fs2, [CallBlockWrite newopts], committed)))"

subsection \<open>Tidying\<close>

text \<open>What \<^verbatim>\<open>filepath.Walk\<close> passes to its function for one path: the error of
  reading it, whether it is a directory, the access time of its \<^verbatim>\<open>Stat_t\<close> when there
  is one, its modification time and its size.\<close>

record fileinfo =
  fi_path :: string
  fi_err :: "error option"
  fi_isdir :: bool
  fi_atime :: "int option"
  fi_mtime :: int
  fi_size :: int

text \<open>The function \<^verbatim>\<open>tidy\<close> walks the directory with, on \<^verbatim>\<open>ents\<close> and \<^verbatim>\<open>totalsize\<close>.\<close>

definition walkFn :: "entT list \<times> int \<Rightarrow> fileinfo \<Rightarrow> entT list \<times> int" where
  "walkFn acc info =
     (if fi_err info \<noteq> None then acc
      else if fi_isdir info then acc
      else if \<not> strings_HasSuffix (fi_path info) cacheFileSuffix
              \<and> \<not> strings_HasSuffix (fi_path info) tmpFileSuffix then acc
      else
        (fst acc @
           [\<lparr>ent_path = fi_path info,
             ent_atime = (case fi_atime info of Some a \<Rightarrow> a | None \<Rightarrow> fi_mtime info),
             ent_size = fi_size info\<rparr>],
         snd acc + fi_size info))"

text \<open>The loop that deletes the oldest entries: the paths removed, in order, and
  \<^verbatim>\<open>totalsize\<close> after it.\<close>

fun deleteOldest :: "int \<Rightarrow> entT list \<Rightarrow> int \<Rightarrow> string list \<times> int" where
  "deleteOldest maxsize [] totalsize = ([], totalsize)"
| "deleteOldest maxsize (ent # ents) totalsize =
     (let totalsize' = totalsize - ent_size ent
      in if totalsize' \<le> maxsize then ([ent_path ent], totalsize')
         else
           (let (ps, t) = deleteOldest maxsize ents totalsize'
            in (ent_path ent # ps, t)))"

text \<open>The size limit \<^verbatim>\<open>tidy\<close> starts from, and the cache with the default it has
  stored.\<close>

definition tidy_maxsize :: "env \<Rightarrow> DiskCache \<Rightarrow> DiskCache \<times> int" where
  "tidy_maxsize e cache =
     (if MaxSize cache < 1 then
        (if defaultMaxSize cache = 0 then
           (let m = (case statfs e of
                       Some (bavail, bsize) \<Rightarrow> (bavail * bsize) div 10
                     | None \<Rightarrow> 0)
            in (cache\<lparr>defaultMaxSize := m\<rparr>, m))
         else (cache, defaultMaxSize cache))
      else (cache, MaxSize cache))"

text \<open>
  \<^verbatim>\<open>tidy\<close>, on what \<^verbatim>\<open>filepath.Walk\<close> visits: the cache and the file system after
  it, the paths it removed in order, and \<^verbatim>\<open>totalsize\<close> at its end.
\<close>

definition tidy ::
  "env \<Rightarrow> DiskCache \<Rightarrow> filesys \<Rightarrow> fileinfo list
     \<Rightarrow> DiskCache \<times> filesys \<times> string list \<times> int" where
  "tidy e cache0 fs walk =
     (let (cache, maxsize) = tidy_maxsize e cache0;
          (fs1, lockfile) =
            openFile e TidyLockOpen TidyLockOpenRetry fs
              (filepath_Join [Dir cache, ''tmp'', ''tidy.lock'']) {O_CREATE, O_WRONLY}
      in case lockfile of
           Inl er \<Rightarrow> (cache, fs1, [], 0)
         | Inr lk \<Rightarrow>
             (if fault e TidyFlock \<noteq> None then (cache, fs1, [], 0)
              else
                (let (ents, totalsize) = foldl walkFn ([], 0) walk
                 in if maxsize = 0 then
                      (cache\<lparr>defaultMaxSize :=
                          (if totalsize < 2 ^ 30 then 2 ^ 30 else totalsize)\<rparr>,
                       fs1, [], totalsize)
                    else if totalsize \<le> maxsize then (cache, fs1, [], totalsize)
                    else
                      (let sorted_ents =
                             sort_Slice e (\<lambda>a b. ent_atime a < ent_atime b) ents;
                           (removed, totalsize') = deleteOldest maxsize sorted_ents totalsize
                       in (cache, foldl os_Remove fs1 removed, removed, totalsize')))))"

text \<open>
  \<^verbatim>\<open>gotidy\<close>, with the goroutine it starts run to its end: \<open>now\<close> is the time of the
  call and \<open>finished\<close> the time \<^verbatim>\<open>tidy\<close> returns.
\<close>

definition gotidy ::
  "env \<Rightarrow> int \<Rightarrow> int \<Rightarrow> DiskCache \<Rightarrow> filesys \<Rightarrow> fileinfo list \<Rightarrow> DiskCache \<times> filesys" where
  "gotidy e now finished cache fs walk =
     (let n = tidying cache + 1
      in if n \<noteq> 1 \<or> now < tidyHoldUntil cache then (cache, fs)
         else
           (let (cache1, fs1, removed, totalsize) = tidy e (cache\<lparr>tidying := n\<rparr>) fs walk
            in (cache1\<lparr>tidyHoldUntil := finished + tidyHoldDuration, tidying := n - 1\<rparr>,
                fs1)))"

subsection \<open>The words of the specification, and small examples\<close>

text \<open>The hash of a locator as the specification has it: the prefix before the
  first \<^verbatim>\<open>+\<close> (all of it when there is none), and the rest of the locator.\<close>

definition locator_hash :: "string \<Rightarrow> string" where
  "locator_hash L = takeWhile (\<lambda>c. c \<noteq> CHR ''+'') L"

definition locator_rest :: "string \<Rightarrow> string" where
  "locator_rest L = dropWhile (\<lambda>c. c \<noteq> CHR ''+'') L"

text \<open>The hash as \<^verbatim>\<open>cacheFile\<close> computes it.\<close>

definition code_hash :: "string \<Rightarrow> string" where
  "code_hash L = (let i = strings_Index L CHR ''+'' in if i > 0 then take (nat i) L else L)"

text \<open>A run of \<^verbatim>\<open>quickReadAt\<close> calls, one per name, each reading no bytes at offset
  zero: the cache after the last one, or the panic that ended the run.\<close>

fun quickReadAt_seq :: "env \<Rightarrow> DiskCache \<Rightarrow> filesys \<Rightarrow> string list \<Rightarrow> panic + DiskCache" where
  "quickReadAt_seq e cache fs [] = Inr cache"
| "quickReadAt_seq e cache fs (name # rest) =
     (case quickReadAt e cache fs name 0 0 of
        Inl p \<Rightarrow> Inl p
      | Inr (cache1, got, err) \<Rightarrow> quickReadAt_seq e cache1 fs rest)"

text \<open>An insertion sort by a comparison, for the examples' \<open>sort_Slice\<close>.\<close>

fun insert_by :: "('a \<Rightarrow> 'a \<Rightarrow> bool) \<Rightarrow> 'a \<Rightarrow> 'a list \<Rightarrow> 'a list" where
  "insert_by lt x [] = [x]"
| "insert_by lt x (y # ys) =
     (if lt x y then x # y # ys else y # insert_by lt x ys)"

definition sort_by :: "('a \<Rightarrow> 'a \<Rightarrow> bool) \<Rightarrow> 'a list \<Rightarrow> 'a list" where
  "sort_by lt xs = foldr (insert_by lt) xs []"

text \<open>
  An environment in which no system call fails, with the soft limit on open files
  as a parameter; a gateway that stores nothing; an empty file system; a file system
  holding the given files.
\<close>

definition quiet_env :: "nat option \<Rightarrow> env" where
  "quiet_env lim =
     \<lparr>fault = (\<lambda>s. None), rlimit = lim, statfs = Some (1000000, 4096),
      md5sum = (\<lambda>b. sum_list (map of_char b)), unique_token = ''1f3a.0xc000012340'',
      sort_Slice = sort_by, copyerr_first = True, piped = 0\<rparr>"

definition stub_gateway :: "string KeepGateway" where
  "stub_gateway =
     \<lparr>gw_ReadAt = (\<lambda>locator n off. ([], Some (GatewayError ''not found''))),
      gw_BlockRead = (\<lambda>locator. ([], 0, Some (GatewayError ''not found''))),
      gw_BlockWrite = (\<lambda>opts. (''stored'', None)),
      gw_LocalLocator = (\<lambda>locator. (locator, None))\<rparr>"

definition empty_fs :: filesys where
  "empty_fs = \<lparr>names = Map.empty, inodes = (\<lambda>ino. []), next_ino = 0\<rparr>"

fun fs_with :: "(string \<times> bytes) list \<Rightarrow> filesys" where
  "fs_with [] = empty_fs"
| "fs_with ((name, content) # files) =
     (let fs = fs_with files
      in fs\<lparr>names := (names fs)(name \<mapsto> next_ino fs),
             inodes := (inodes fs)(next_ino fs := content),
             next_ino := Suc (next_ino fs)\<rparr>)"

definition three_files :: filesys where
  "three_files =
     fs_with [(''/c/aaa/aaa1.keepcacheblock'', ''x''),
              (''/c/bbb/bbb1.keepcacheblock'', ''y''),
              (''/c/ccc/ccc1.keepcacheblock'', ''z'')]"


text \<open>
  The error the copying goroutine of \<^verbatim>\<open>BlockWrite\<close> records, in the words of the
  specification: a copy failure, else a size mismatch, else (once the temporary
  file is closed) a hash mismatch.
\<close>

definition feeder_error :: "env \<Rightarrow> BlockWriteOptions \<Rightarrow> error option" where
  "feeder_error e opts =
     (let written = fst (copied e opts)
      in if snd (copied e opts) \<noteq> None then snd (copied e opts)
         else if DataSize opts > 0 \<and> DataSize opts \<noteq> int (length written)
         then Some (SizeMismatch (int (length written)) (DataSize opts))
         else if fault e TmpClose = None \<and> Hash opts \<noteq> [] \<and> Hash opts \<noteq> md5_hex e written
         then Some (HashMismatch (md5_hex e written) (Hash opts))
         else None)"

text \<open>The options \<^verbatim>\<open>BlockWrite\<close> passes on, and the name of its temporary file.\<close>

definition passed_on :: "env \<Rightarrow> BlockWriteOptions \<Rightarrow> BlockWriteOptions" where
  "passed_on e opts =
     opts\<lparr>Data := None,
          Reader := \<lparr>rd_bytes = fst (copied e opts), rd_err = None\<rparr>,
          DataSize :=
            (if DataSize opts = 0
             then (case Data opts of None \<Rightarrow> 0 | Some d \<Rightarrow> int (length d))
             else DataSize opts)\<rparr>"

definition tmp_name :: "env \<Rightarrow> DiskCache \<Rightarrow> string" where
  "tmp_name e cache = filepath_Join [Dir cache, ''tmp'', unique_token e @ tmpFileSuffix]"

text \<open>Options that carry a byte buffer.\<close>

definition write_bytes :: "bytes \<Rightarrow> int \<Rightarrow> string \<Rightarrow> BlockWriteOptions" where
  "write_bytes b n h =
     \<lparr>Data = Some b, Reader = \<lparr>rd_bytes = [], rd_err = None\<rparr>, DataSize = n, Hash = h\<rparr>"

text \<open>An environment in which the system call at one place fails.\<close>

definition failing_env :: "site \<Rightarrow> env" where
  "failing_env s =
     (quiet_env None)\<lparr>fault := (\<lambda>x. if x = s then Some (OSError ''input/output error'') else None)\<rparr>"




section \<open>Properties\<close>

subsection \<open>Locators and paths\<close>

lemma Index_absent: "c \<notin> set s \<Longrightarrow> strings_Index s c = - 1"
  by (induction s) (auto simp: Let_def)

lemma Index_present:
  "c \<in> set s \<Longrightarrow> strings_Index s c = int (length (takeWhile (\<lambda>x. x \<noteq> c) s))"
  by (induction s) (auto simp: Let_def Index_absent)

lemma take_Index:
  "c \<in> set s \<Longrightarrow> take (nat (strings_Index s c)) s = takeWhile (\<lambda>x. x \<noteq> c) s"
  using takeWhile_eq_take [of "\<lambda>x. x \<noteq> c" s] by (simp add: Index_present)

lemma takeWhile_absent: "c \<notin> set s \<Longrightarrow> takeWhile (\<lambda>x. x \<noteq> c) s = s"
  by (induction s) auto

text \<open>The hash \<^verbatim>\<open>cacheFile\<close> cuts off is the prefix before the first \<^verbatim>\<open>+\<close>, except
  for a locator that begins with \<^verbatim>\<open>+\<close>: the test \<^verbatim>\<open>i > 0\<close> leaves it whole.\<close>

lemma code_hash_eq: "code_hash L = (if take 1 L = ''+'' then L else locator_hash L)"
proof (cases "CHR ''+'' \<in> set L")
  case False
  then show ?thesis
    by (cases L) (auto simp: code_hash_def locator_hash_def Index_absent takeWhile_absent Let_def)
next
  case True
  show ?thesis
  proof (cases "take 1 L = ''+''")
    case first: True
    then have "strings_Index L CHR ''+'' = 0" by (cases L) auto
    with first show ?thesis by (simp add: code_hash_def)
  next
    case other: False
    with True have "0 < strings_Index L CHR ''+''"
      by (cases L) (auto simp: Index_present)
    with other True show ?thesis
      by (simp add: code_hash_def locator_hash_def take_Index)
  qed
qed

lemma cacheFile_code_hash:
  "cacheFile cache L =
     (if length (code_hash L) < 3 then Inl (SliceOutOfRange 3 (length (code_hash L)))
      else Inr (filepath_Join [Dir cache, take 3 (code_hash L), code_hash L @ cacheFileSuffix]))"
  by (simp add: cacheFile_def code_hash_def Let_def)

lemma cacheFile_example:
  "cacheFile (newDiskCache ''/var/cache'' 0) ''acbd18db4cc2f85cedef654fccc4a4d8+3''
     = Inr ''/var/cache/acb/acbd18db4cc2f85cedef654fccc4a4d8.keepcacheblock''"
  by (simp add: cacheFile_def newDiskCache_def cacheFileSuffix_def filepath_Clean_def)

text \<open>
  C5, as amended. For every locator whose hash (the prefix before the first \<^verbatim>\<open>+\<close>,
  the whole locator when it has none) has at least three characters, the committed
  path is the cache directory joined with the first three characters of the hash,
  joined with the hash followed by \<^verbatim>\<open>.keepcacheblock\<close>. The rest of the locator (the
  size and the hints) is not part of the file name.
\<close>

theorem cacheFile_layout:
  "3 \<le> length (locator_hash L) \<Longrightarrow>
   cacheFile cache L =
     Inr (filepath_Join [Dir cache, take 3 (locator_hash L), locator_hash L @ cacheFileSuffix])"
proof -
  assume h: "3 \<le> length (locator_hash L)"
  then have "take 1 L \<noteq> ''+''"
    by (cases L) (auto simp: locator_hash_def)
  then have "code_hash L = locator_hash L" by (simp add: code_hash_eq)
  with h show ?thesis by (simp add: cacheFile_code_hash)
qed

theorem cacheFile_layout_witness:
  "3 \<le> length (locator_hash ''acbd18db4cc2f85cedef654fccc4a4d8+3'')
   \<and> cacheFile (newDiskCache ''/var/cache'' 0) ''acbd18db4cc2f85cedef654fccc4a4d8+3''
       = Inr ''/var/cache/acb/acbd18db4cc2f85cedef654fccc4a4d8.keepcacheblock''"
  using cacheFile_layout [of "''acbd18db4cc2f85cedef654fccc4a4d8+3''" "newDiskCache ''/var/cache'' 0"]
  by (simp add: locator_hash_def newDiskCache_def cacheFileSuffix_def filepath_Clean_def)

text \<open>
  C5 as the specification states it, with the rest of the locator between the hash
  and the suffix, fails on the locator of the block \<^verbatim>\<open>foo\<close>: the file is
  \<^verbatim>\<open>acbd18db4cc2f85cedef654fccc4a4d8.keepcacheblock\<close>, with no \<^verbatim>\<open>+3\<close> in its name.
\<close>

theorem cacheFile_layout_counterexample:
  "cacheFile (newDiskCache ''/var/cache'' 0) ''acbd18db4cc2f85cedef654fccc4a4d8+3''
     \<noteq> Inr (filepath_Join [''/var/cache'',
              take 3 (locator_hash ''acbd18db4cc2f85cedef654fccc4a4d8+3''),
              locator_hash ''acbd18db4cc2f85cedef654fccc4a4d8+3''
                @ locator_rest ''acbd18db4cc2f85cedef654fccc4a4d8+3'' @ cacheFileSuffix])"
  by (simp add: cacheFile_def newDiskCache_def cacheFileSuffix_def filepath_Clean_def
      locator_hash_def locator_rest_def)

text \<open>
  C10, as amended. For every locator that does not begin with \<^verbatim>\<open>+\<close> and whose prefix
  before the first \<^verbatim>\<open>+\<close> (the whole locator when it has none) is shorter than three
  characters, and for every locator shorter than three characters, \<^verbatim>\<open>ReadAt\<close> and
  \<^verbatim>\<open>BlockRead\<close> panic on the slice \<^verbatim>\<open>hash[:3]\<close>: nothing is returned, no file is
  touched and the wrapped gateway is not called.
\<close>

theorem short_hash_faults:
  assumes "length (locator_hash L) < 3" and "take 1 L \<noteq> ''+'' \<or> length L < 3"
  shows "length (code_hash L) < 3
         \<and> ReadAt e gw cache fs L n off
             = (Inl (SliceOutOfRange 3 (length (code_hash L))), cache, fs, [])
         \<and> BlockRead e gw cache fs L = (Inl (SliceOutOfRange 3 (length (code_hash L))), fs, [])"
proof -
  from assms have "length (code_hash L) < 3" by (auto simp: code_hash_eq)
  then show ?thesis
    by (simp add: ReadAt_def BlockRead_def cacheFile_code_hash)
qed

theorem short_hash_faults_witness:
  "ReadAt (quiet_env None) stub_gateway (newDiskCache ''/var/cache'' 0) empty_fs ''ab+2'' 2 0
     = (Inl (SliceOutOfRange 3 2), newDiskCache ''/var/cache'' 0, empty_fs, [])
   \<and> BlockRead (quiet_env None) stub_gateway (newDiskCache ''/var/cache'' 0) empty_fs ''ab+2''
     = (Inl (SliceOutOfRange 3 2), empty_fs, [])"
  using short_hash_faults [of "''ab+2''" "quiet_env None" stub_gateway
      "newDiskCache ''/var/cache'' 0" empty_fs 2 0]
  by (simp add: locator_hash_def code_hash_def)

text \<open>
  C10 as stated fails on the locator \<^verbatim>\<open>+16\<close>: its prefix before the first \<^verbatim>\<open>+\<close> is
  empty, yet \<^verbatim>\<open>cacheFile\<close> takes the whole locator for the hash (the \<^verbatim>\<open>+\<close> is at index
  zero) and both calls return.
\<close>

theorem short_hash_counterexample:
  "length (locator_hash ''+16'') < 3
   \<and> fst (ReadAt (quiet_env None) stub_gateway (newDiskCache ''/var/cache'' 0) empty_fs ''+16'' 0 0)
       = Inr ([], None)
   \<and> fst (BlockRead (quiet_env None) stub_gateway (newDiskCache ''/var/cache'' 0) empty_fs ''+16'')
       = Inr ([], 0, Some (GatewayError ''not found''))"
  by (simp add: locator_hash_def ReadAt_def BlockRead_def cacheFile_def newDiskCache_def
      cacheFileSuffix_def filepath_Clean_def quickReadAt_def heldopen_acquire_def
      chooseHeldopenMax_def heldopen_lookup_def heldopen_init_def os_OpenFile_def quiet_env_def
      empty_fs_def heldopen_store_def deleteHeldopen_def ReadAt_slow_def openFile_def
      file_ReadAt_def stub_gateway_def Let_def ParseInt_def is_digit_def decimal_def digit_val_def
      file_WriteAt0_def)

subsection \<open>The pool of files held open\<close>

lemma heldopen_choose [simp]: "heldopen (chooseHeldopenMax e cache) = heldopen cache"
  by (simp add: chooseHeldopenMax_def)

lemmas example_defs =
  quiet_env_def stub_gateway_def empty_fs_def newDiskCache_def three_files_def

lemmas pool_defs =
  quickReadAt_def heldopen_acquire_def chooseHeldopenMax_def heldopen_lookup_def
  heldopen_init_def heldopen_store_def deleteHeldopen_def os_OpenFile_def file_ReadAt_def

text \<open>
  C3. The limit is 10000 above a soft limit of 40000 descriptors, a quarter of the
  soft limit below, 256 when the limit is not known; but the map is only emptied
  when it is already over that limit, so it comes to hold one entry more. With a
  soft limit of 8 the limit is 2, and three reads of three cached files leave three
  entries in the map.
\<close>

theorem heldopen_exceeds_limit:
  "map_sum id (\<lambda>c. (heldopenMax c, map_option length (heldopen c)))
     (quickReadAt_seq (quiet_env (Some 8)) (newDiskCache ''/c'' 0) three_files
        [''/c/aaa/aaa1.keepcacheblock'', ''/c/bbb/bbb1.keepcacheblock'',
         ''/c/ccc/ccc1.keepcacheblock''])
   = Inr (2, Some 3)"
  by (simp add: example_defs pool_defs Let_def)

text \<open>
  C4. When a new name comes to a map that is over the limit, \<^verbatim>\<open>quickReadAt\<close> hands
  the map to the closing goroutine, sets \<^verbatim>\<open>cache.heldopen\<close> to \<^verbatim>\<open>nil\<close> and assigns the
  new entry into it: the call panics instead of publishing the entry.
\<close>

theorem overflow_publication_faults:
  assumes "heldopen cache = Some m" and "map_of m name = None"
      and "heldopenMax (chooseHeldopenMax e cache) < int (length m)"
  shows "quickReadAt e cache fs name n off = Inl NilMapAssignment"
  using assms
  by (simp add: quickReadAt_def heldopen_acquire_def heldopen_lookup_def Let_def)

theorem overflow_publication_faults_witness:
  "quickReadAt_seq (quiet_env (Some 8)) (newDiskCache ''/c'' 0) three_files
     [''/c/aaa/aaa1.keepcacheblock'', ''/c/bbb/bbb1.keepcacheblock'',
      ''/c/ccc/ccc1.keepcacheblock'', ''/c/ddd/ddd1.keepcacheblock'']
   = Inl NilMapAssignment"
proof -
  let ?e = "quiet_env (Some 8)"
  let ?m = "[(''/c/ccc/ccc1.keepcacheblock'', \<lparr>ent_f = Some 0, ent_err = None\<rparr>),
             (''/c/bbb/bbb1.keepcacheblock'', \<lparr>ent_f = Some 1, ent_err = None\<rparr>),
             (''/c/aaa/aaa1.keepcacheblock'', \<lparr>ent_f = Some 2, ent_err = None\<rparr>)]"
  let ?c = "(newDiskCache ''/c'' 0)\<lparr>heldopen := Some ?m, heldopenMax := 2\<rparr>"
  have three: "quickReadAt_seq ?e (newDiskCache ''/c'' 0) three_files
        [''/c/aaa/aaa1.keepcacheblock'', ''/c/bbb/bbb1.keepcacheblock'',
         ''/c/ccc/ccc1.keepcacheblock'', ''/c/ddd/ddd1.keepcacheblock'']
      = (case quickReadAt ?e ?c three_files ''/c/ddd/ddd1.keepcacheblock'' 0 0 of
           Inl p \<Rightarrow> Inl p | Inr (c1, got, err) \<Rightarrow> Inr c1)"
    by (simp add: example_defs pool_defs Let_def)
  have "quickReadAt ?e ?c three_files ''/c/ddd/ddd1.keepcacheblock'' 0 0 = Inl NilMapAssignment"
    by (rule overflow_publication_faults [where m = ?m])
       (simp_all add: chooseHeldopenMax_def newDiskCache_def)
  with three show ?thesis by simp
qed

subsection \<open>The digest in hexadecimal\<close>

lemma hex_len [simp]: "length (hex_fixed k v) = k"
  by (induction k arbitrary: v) auto

lemma hex_digit_not_plus: "hex_digit d \<noteq> CHR ''+''"
proof -
  have "d mod 16 < length ''0123456789abcdef''" by simp
  then have "''0123456789abcdef'' ! (d mod 16) \<in> set ''0123456789abcdef''"
    by (rule nth_mem)
  then show ?thesis unfolding hex_digit_def by auto
qed

lemma hex_no_plus: "CHR ''+'' \<notin> set (hex_fixed k v)"
  by (induction k arbitrary: v) (auto simp: hex_digit_not_plus [symmetric])

lemma md5_hex_len [simp]: "length (md5_hex e b) = 32"
  by (simp add: md5_hex_def)

lemma md5_hex_no_plus [simp]: "CHR ''+'' \<notin> set (md5_hex e b)"
  by (simp add: md5_hex_def hex_no_plus)

lemma code_hash_md5 [simp]: "code_hash (md5_hex e b) = md5_hex e b"
  by (simp add: code_hash_def Index_absent)

lemma code_hash_md5_plus [simp]: "code_hash (md5_hex e b @ CHR ''+'' # r) = md5_hex e b"
proof -
  have "strings_Index (md5_hex e b @ CHR ''+'' # r) CHR ''+'' = 32"
    by (simp add: Index_present takeWhile_append takeWhile_absent)
  then show ?thesis by (simp add: code_hash_def)
qed

lemma cacheFile_md5:
  "cacheFile cache (md5_hex e b)
     = Inr (filepath_Join [Dir cache, take 3 (md5_hex e b), md5_hex e b @ cacheFileSuffix])"
  by (simp add: cacheFile_code_hash)

subsection \<open>The examples, evaluated\<close>

lemmas fs_defs = openFile_def os_OpenFile_def os_Rename_def os_Remove_def rename_def
  file_ReadAt_def file_WriteAt0_def file_Truncate_def

lemma tmp_name_example [simp]:
  "tmp_name (quiet_env l) (newDiskCache ''/var/cache'' m) = ''/var/cache/tmp/1f3a.0xc000012340.tmp''"
  "tmp_name (failing_env s) (newDiskCache ''/var/cache'' m) = ''/var/cache/tmp/1f3a.0xc000012340.tmp''"
  by (simp_all add: tmp_name_def quiet_env_def failing_env_def newDiskCache_def tmpFileSuffix_def filepath_Clean_def)

lemma write_bytes_sel [simp]:
  "Data (write_bytes b n h) = Some b" "DataSize (write_bytes b n h) = n" "Hash (write_bytes b n h) = h"
  by (simp_all add: write_bytes_def)

lemma quiet_env_sel [simp]:
  "fault (quiet_env l) s = None" "rlimit (quiet_env l) = l" "copyerr_first (quiet_env l) = True"
  "unique_token (quiet_env l) = ''1f3a.0xc000012340''"
  by (simp_all add: quiet_env_def)

lemma failing_env_sel [simp]:
  "fault (failing_env s) x = (if x = s then Some (OSError ''input/output error'') else None)"
  "rlimit (failing_env s) = None" "copyerr_first (failing_env s) = True"
  by (simp_all add: failing_env_def)

lemma stub_gateway_sel [simp]:
  "gw_ReadAt stub_gateway L n off = ([], Some (GatewayError ''not found''))"
  "gw_BlockRead stub_gateway L = ([], 0, Some (GatewayError ''not found''))"
  "gw_BlockWrite stub_gateway opts = (''stored'', None)"
  by (simp_all add: stub_gateway_def)

lemma hex_532: "hex_fixed 32 (532::nat) = ''00000000000000000000000000000214''"
  by code_simp

lemma md5_hello [simp]: "md5_hex (quiet_env l) ''hello'' = ''00000000000000000000000000000214''"
  by (simp add: md5_hex_def quiet_env_def hex_532)

lemma md5_hello' [simp]: "md5_hex ((quiet_env l)\<lparr>copyerr_first := b\<rparr>) ''hello'' = ''00000000000000000000000000000214''"
  by (simp add: md5_hex_def quiet_env_def hex_532)

lemma copied_quiet [simp]:
  "copied (quiet_env l) (write_bytes b n h) = (b, None)"
  "copied ((quiet_env l)\<lparr>copyerr_first := c\<rparr>) (write_bytes b n h) = (b, None)"
  by (simp_all add: copied_def copy_source_def write_bytes_def quiet_env_def)

lemma cacheFile_foo [simp]:
  "cacheFile (newDiskCache ''/var/cache'' m) ''acbd18db4cc2f85cedef654fccc4a4d8+3''
     = Inr ''/var/cache/acb/acbd18db4cc2f85cedef654fccc4a4d8.keepcacheblock''"
  "cacheFile (newDiskCache ''/var/cache'' m) ''acbd18db4cc2f85cedef654fccc4a4d8''
     = Inr ''/var/cache/acb/acbd18db4cc2f85cedef654fccc4a4d8.keepcacheblock''"
  by (simp_all add: cacheFile_def newDiskCache_def cacheFileSuffix_def filepath_Clean_def)


subsection \<open>Writing\<close>

lemma BlockWrite_unfold:
  "BlockWrite e gw cache fs opts =
     (case openFile e TmpOpen TmpOpenRetry fs (tmp_name e cache) {O_CREATE, O_EXCL, O_RDWR} of
        (fs1, Inl er) \<Rightarrow> (Inr (gw_BlockWrite gw opts), fs1, [CallBlockWrite opts], False)
      | (fs1, Inr tmpfile) \<Rightarrow>
          (case feeder e cache fs1 opts (tmp_name e cache) tmpfile of
             (Inl p, fs2, committed) \<Rightarrow> (Inl p, fs2, [CallBlockWrite (passed_on e opts)], False)
           | (Inr copyerr, fs2, committed) \<Rightarrow>
               (Inr (fst (gw_BlockWrite gw (passed_on e opts)),
                     if copyerr \<noteq> None \<and> copyerr_first e then copyerr
                     else snd (gw_BlockWrite gw (passed_on e opts))),
                fs2, [CallBlockWrite (passed_on e opts)], committed)))"
  by (simp add: BlockWrite_def tmp_name_def passed_on_def Let_def split: prod.splits sum.splits)

lemma feeder_sent:
  "fst (feeder e cache fs opts tmpname tmpfile) = Inr (feeder_error e opts)"
  by (simp add: feeder_def feeder_error_def cacheFile_md5 Let_def split: prod.splits)

text \<open>
  C8. \<^verbatim>\<open>BlockWrite\<close> returns the error the copying goroutine recorded (a copy
  failure, a size mismatch or a hash mismatch) when that error is in the channel
  by the time the wrapped gateway has returned, with the gateway's response;
  otherwise it returns the gateway's response and error unchanged. When the
  temporary file cannot be opened there is no goroutine, and the gateway's result
  for the caller's own options is returned.
\<close>

theorem BlockWrite_error_precedence:
  "fst (BlockWrite e gw cache fs opts) =
     (case snd (openFile e TmpOpen TmpOpenRetry fs (tmp_name e cache) {O_CREATE, O_EXCL, O_RDWR}) of
        Inl er \<Rightarrow> Inr (gw_BlockWrite gw opts)
      | Inr tmpfile \<Rightarrow>
          Inr (if feeder_error e opts \<noteq> None \<and> copyerr_first e
               then (fst (gw_BlockWrite gw (passed_on e opts)), feeder_error e opts)
               else gw_BlockWrite gw (passed_on e opts)))"
proof (cases "openFile e TmpOpen TmpOpenRetry fs (tmp_name e cache) {O_CREATE, O_EXCL, O_RDWR}")
  case (Pair fs1 opened)
  show ?thesis
  proof (cases opened)
    case (Inl er)
    with Pair show ?thesis by (simp add: BlockWrite_unfold)
  next
    case (Inr tmpfile)
    obtain fs2 c where "feeder e cache fs1 opts (tmp_name e cache) tmpfile
        = (Inr (feeder_error e opts), fs2, c)"
      using feeder_sent [of e cache fs1 opts "tmp_name e cache" tmpfile]
      by (cases "feeder e cache fs1 opts (tmp_name e cache) tmpfile") auto
    with Pair Inr show ?thesis by (simp add: BlockWrite_unfold)
  qed
qed

theorem BlockWrite_error_precedence_witness:
  "fst (BlockWrite (quiet_env None) stub_gateway (newDiskCache ''/var/cache'' 0) empty_fs
          (write_bytes ''hello'' 0 ''deadbeefdeadbeefdeadbeefdeadbeef''))
     = Inr (''stored'', Some (HashMismatch ''00000000000000000000000000000214''
                                ''deadbeefdeadbeefdeadbeefdeadbeef''))
   \<and> fst (BlockWrite (failing_env TmpOpen) stub_gateway (newDiskCache ''/var/cache'' 0) empty_fs
          (write_bytes ''hello'' 0 ''deadbeefdeadbeefdeadbeefdeadbeef''))
     = Inr (''stored'', None)"
proof -
  let ?o = "write_bytes ''hello'' 0 ''deadbeefdeadbeefdeadbeefdeadbeef''"
  have f: "feeder_error (quiet_env None) ?o
      = Some (HashMismatch ''00000000000000000000000000000214'' ''deadbeefdeadbeefdeadbeefdeadbeef'')"
    by (simp add: feeder_error_def)
  from BlockWrite_error_precedence [of "quiet_env None" stub_gateway "newDiskCache ''/var/cache'' 0" empty_fs ?o]
       BlockWrite_error_precedence [of "failing_env TmpOpen" stub_gateway "newDiskCache ''/var/cache'' 0" empty_fs ?o]
  show ?thesis by (simp add: f fs_defs empty_fs_def)
qed








subsection \<open>Reading\<close>












subsection \<open>Tidying\<close>









subsection \<open>A block written is read back from the cache\<close>











lemma file_ReadAt_whole [simp]: "file_ReadAt None b (length b) 0 = (b, None)"
  by (simp add: file_ReadAt_def)


lemma quick_lookup_choose [simp]:
  "heldopen_lookup (chooseHeldopenMax e cache) name = heldopen_lookup cache name"
  by (simp add: heldopen_lookup_def)










end
